theory Spec2Isabelle
  imports Main "HOL-Library.Word"
begin

unbundle bit_operations_syntax

section \<open>Data model of main.go\<close>

text \<open>
  A Go \<^verbatim>\<open>error\<close> value is represented by its message; \<^verbatim>\<open>nil\<close> is \<open>None\<close>
  (or the \<open>Inr\<close> side of a result).
\<close>

type_synonym error = string

record GitHubAsset =
  Name :: string
  BrowserDownloadURL :: string

record GitHubRelease =
  TagName :: string
  Assets :: "GitHubAsset list"

text \<open>\<^verbatim>\<open>CountryRecord\<close>: the anonymous inner struct is the record \<open>CountryInfo\<close>.\<close>

record CountryInfo =
  ISOCode :: string

record CountryRecord =
  Country :: CountryInfo

definition apiURL :: string where
  "apiURL = ''https://api.github.com/repos/P3TERX/GeoLite.mmdb/releases/latest''"

definition saveMMDB :: string where
  "saveMMDB = ''/usr/share/GeoIP/GeoLite2-Country.mmdb''"

definition tmpMMDB :: string where
  "tmpMMDB = ''/tmp/GeoLite2-Country.mmdb''"

definition outCN4 :: string where
  "outCN4 = ''/etc/nftables.d/cn4.nft''"

definition outCN6 :: string where
  "outCN6 = ''/etc/nftables.d/cn6.nft''"

section \<open>The outside world\<close>

text \<open>
  \<open>net.IPNet\<close> of Go's standard library: two byte slices. A \<^verbatim>\<open>nil\<close> slice is the
  empty list (the code below only ever looks at lengths and elements).
\<close>

type_synonym byte = "8 word"

record IPNet =
  IP :: "byte list"
  Mask :: "byte list"

text \<open>
  What one step of the iteration \<^verbatim>\<open>networks.Network(&rec)\<close> gives: an error, or the
  network with the decoded record.
\<close>

type_synonym db_entry = "error + (IPNet \<times> CountryRecord)"

text \<open>
  An \<^verbatim>\<open>io.ReadCloser\<close> (the body of an HTTP response): the bytes it delivers, and the
  error that ends the stream if it does not end with EOF.
\<close>

record ReadCloser =
  content :: string
  read_error :: "error option"

record Response =
  StatusCode :: int
  Body :: ReadCloser

text \<open>
  The environment of one run fixes the outcome of every call that leaves the program:
  the wall clock, the network, the JSON decoder, the file system's failures, the
  database reader and the service manager.
\<close>

record env =
  now :: "nat \<Rightarrow> string"
  http_response :: "string \<Rightarrow> error + Response"
  json_release :: "ReadCloser \<Rightarrow> error + GitHubRelease"
  create_error :: "string \<Rightarrow> error option"
  write_error :: "string \<Rightarrow> error option"
  rename_error :: "string \<Rightarrow> string \<Rightarrow> error option"
  mmdb_networks :: "string \<Rightarrow> error + db_entry list"
  command_result :: "string list \<Rightarrow> string \<times> error option"

datatype level = INFO | ERROR

datatype handle = HttpBody nat | OsFile string | MmdbReader string

datatype call =
    Http_Get string
  | Os_Create string
  | Io_Copy string
  | Os_Rename string string
  | Maxminddb_Open string
  | Exec_Command "string list"

text \<open>
  The state a run changes: the lines printed to standard output (time stamp, level,
  message), the files by path, the handles that are open, the \<^verbatim>\<open>Close\<close> calls that
  \<^verbatim>\<open>main\<close> has deferred (latest first), and the calls made to the outside so far.
\<close>

record world =
  stdout :: "(string \<times> level \<times> string) list"
  files :: "string \<rightharpoonup> string"
  open_handles :: "handle list"
  deferred :: "handle list"
  calls :: "call list"

text \<open>
  A function either returns, or ends the process through \<^verbatim>\<open>os.Exit\<close> with a status.
  \<^verbatim>\<open>os.Exit\<close> does not run deferred calls.
\<close>

datatype 'a step = Exit nat world | Return 'a world

section \<open>The parts of Go's net and net/netip packages that main.go calls\<close>

definition isZeros :: "byte list \<Rightarrow> bool" where
  "isZeros p = list_all (\<lambda>b. b = 0) p"

definition To4 :: "byte list \<Rightarrow> byte list option" where
  "To4 ip =
     (if length ip = 4 then Some ip
      else if length ip = 16 \<and> isZeros (take 10 ip) \<and> ip ! 10 = 0xff \<and> ip ! 11 = 0xff
        then Some (drop 12 ip)
      else None)"

fun CIDRMask_loop :: "nat \<Rightarrow> nat \<Rightarrow> byte list" where
  "CIDRMask_loop 0 n = []"
| "CIDRMask_loop (Suc l) n =
     (if n \<ge> 8 then 0xff # CIDRMask_loop l (n - 8)
      else NOT (drop_bit n (0xff :: byte)) # CIDRMask_loop l 0)"

definition CIDRMask :: "int \<Rightarrow> int \<Rightarrow> byte list" where
  "CIDRMask ones bits =
     (if bits \<noteq> 32 \<and> bits \<noteq> 128 then []
      else if ones < 0 \<or> ones > bits then []
      else CIDRMask_loop (nat bits div 8) (nat ones))"

definition allFF :: "byte list \<Rightarrow> bool" where
  "allFF b = list_all (\<lambda>c. c = 0xff) b"

definition v4InV6Prefix :: "byte list" where
  "v4InV6Prefix = [0, 0, 0, 0, 0, 0, 0, 0, 0, 0, 0xff, 0xff]"

definition IP_Mask :: "byte list \<Rightarrow> byte list \<Rightarrow> byte list" where
  "IP_Mask ip0 mask0 =
     (let m = (if length mask0 = 16 \<and> length ip0 = 4 \<and> allFF (take 12 mask0)
               then drop 12 mask0 else mask0);
          ip = (if length m = 4 \<and> length ip0 = 16 \<and> take 12 ip0 = v4InV6Prefix
                then drop 12 ip0 else ip0)
      in if length ip \<noteq> length m then [] else map2 (AND) ip m)"

function leading_ones :: "byte \<Rightarrow> nat \<Rightarrow> nat \<times> byte" where
  "leading_ones v n =
     (if v AND 0x80 \<noteq> 0 then leading_ones (push_bit 1 v) (Suc n) else (n, v))"
  by pat_completeness auto
termination
proof (relation "measure (\<lambda>(v, n). unat v)")
  show "wf (measure (\<lambda>(v :: byte, n :: nat). unat v))" by simp
next
  fix v :: byte and n :: nat
  assume a: "v AND 0x80 \<noteq> 0"
  have e: "(0x80 :: byte) = 2 ^ 7" by simp
  from a obtain k where k: "bit (v AND 2 ^ 7) k"
    unfolding e by (auto simp: bit_eq_iff)
  then have k1: "bit v k" and k2: "bit ((2 :: byte) ^ 7) k"
    by (simp_all only: bit_and_iff)
  from k2 have "k = 7"
    unfolding bit_exp_iff by simp
  with k1 have "bit v 7"
    by simp
  then have "bit (unat v) 7"
    by (simp add: bit_unsigned_iff)
  then have l: "128 \<le> unat v"
    by (cases "unat v < 128") (simp_all add: bit_iff_odd)
  have u: "unat v < 256"
    using unsigned_less [of v] by simp
  have "unat (push_bit 1 v) = (2 * unat v) mod 256"
    by (simp add: push_bit_eq_mult unat_word_ariths mult.commute)
  with l u have "unat (push_bit 1 v) < unat v"
    by presburger
  then show "((push_bit 1 v, Suc n), (v, n)) \<in> measure (\<lambda>(v :: byte, n :: nat). unat v)"
    by simp
qed


fun simpleMaskLength_loop :: "byte list \<Rightarrow> nat \<Rightarrow> nat option" where
  "simpleMaskLength_loop [] n = Some n"
| "simpleMaskLength_loop (v # rest) n =
     (if v = 0xff then simpleMaskLength_loop rest (n + 8)
      else (case leading_ones v n of
              (n', v') \<Rightarrow>
                if v' \<noteq> 0 then None
                else if list_all (\<lambda>b. b = 0) rest then Some n'
                else None))"

definition simpleMaskLength :: "byte list \<Rightarrow> nat option" where
  "simpleMaskLength m = simpleMaskLength_loop m 0"

definition hexDigit :: string where
  "hexDigit = ''0123456789abcdef''"

fun hexString :: "byte list \<Rightarrow> string" where
  "hexString [] = []"
| "hexString (tn # b) =
     hexDigit ! unat (drop_bit 4 tn) # hexDigit ! unat (tn AND 0xf) # hexString b"

definition IPMask_String :: "byte list \<Rightarrow> string" where
  "IPMask_String m = (if length m = 0 then ''<nil>'' else hexString m)"

text \<open>\<^verbatim>\<open>uitoa\<close>: the decimal digits of an unsigned integer, built from the right.\<close>

function uitoa_loop :: "nat \<Rightarrow> string \<Rightarrow> string" where
  "uitoa_loop val buf =
     (if val \<ge> 10
      then uitoa_loop (val div 10) (char_of (48 + (val - (val div 10) * 10)) # buf)
      else char_of (48 + val) # buf)"
  by pat_completeness auto
termination
  by (relation "measure (\<lambda>(val, buf). val)") auto

definition uitoa :: "nat \<Rightarrow> string" where
  "uitoa val = (if val = 0 then ''0'' else uitoa_loop val [])"

text \<open>netip: \<^verbatim>\<open>appendDecimal\<close>, \<^verbatim>\<open>appendHex\<close>, \<^verbatim>\<open>Addr.string4\<close>, \<^verbatim>\<open>Addr.string6\<close>.\<close>

definition appendDecimal :: "string \<Rightarrow> byte \<Rightarrow> string" where
  "appendDecimal b x =
     (let b1 = (if x \<ge> 100 then b @ [hexDigit ! (unat x div 100)] else b);
          b2 = (if x \<ge> 10 then b1 @ [hexDigit ! (unat x div 10 mod 10)] else b1)
      in b2 @ [hexDigit ! (unat x mod 10)])"

definition string4 :: "byte list \<Rightarrow> string" where
  "string4 ip =
     (let ret = appendDecimal [] (ip ! 0);
          ret = ret @ ''.'';
          ret = appendDecimal ret (ip ! 1);
          ret = ret @ ''.'';
          ret = appendDecimal ret (ip ! 2);
          ret = ret @ ''.''
      in appendDecimal ret (ip ! 3))"

text \<open>
  A 16-bit group of an IPv6 address is read as a natural number below \<open>2 ^ 16\<close>; shifts
  and masks on it are written as \<open>div\<close> and \<open>mod\<close>.
\<close>

definition v6u16 :: "byte list \<Rightarrow> nat \<Rightarrow> nat" where
  "v6u16 ip i = unat (ip ! (2 * i)) * 256 + unat (ip ! (2 * i + 1))"

definition appendHex :: "string \<Rightarrow> nat \<Rightarrow> string" where
  "appendHex b x =
     (let b1 = (if x \<ge> 0x1000 then b @ [hexDigit ! (x div 0x1000)] else b);
          b2 = (if x \<ge> 0x100 then b1 @ [hexDigit ! (x div 0x100 mod 16)] else b1);
          b3 = (if x \<ge> 0x10 then b2 @ [hexDigit ! (x div 0x10 mod 16)] else b2)
      in b3 @ [hexDigit ! (x mod 16)])"

function zero_run :: "byte list \<Rightarrow> nat \<Rightarrow> nat" where
  "zero_run ip j = (if j < 8 \<and> v6u16 ip j = 0 then zero_run ip (Suc j) else j)"
  by pat_completeness auto
termination
  by (relation "measure (\<lambda>(ip, j). 8 - j)") auto

function find_zeros :: "byte list \<Rightarrow> nat \<Rightarrow> nat \<times> nat \<Rightarrow> nat \<times> nat" where
  "find_zeros ip i z =
     (if i < 8
      then (let j = zero_run ip i; l = j - i
            in if l \<ge> 2 \<and> l > snd z - fst z
               then find_zeros ip (Suc i) (i, j)
               else find_zeros ip (Suc i) z)
      else z)"
  by pat_completeness auto
termination
  by (relation "measure (\<lambda>(ip, i, z). 8 - i)") auto

text \<open>
  The output loop of \<^verbatim>\<open>appendTo6\<close>. At the start of the zero run the index jumps to
  its end; the search above only gives runs with \<open>zeroStart < zeroEnd\<close>, which the
  guard of that branch records (it is what makes the loop terminate).
\<close>

function appendTo6_loop :: "byte list \<Rightarrow> nat \<times> nat \<Rightarrow> nat \<Rightarrow> string \<Rightarrow> string" where
  "appendTo6_loop ip z i ret =
     (if i < 8
      then (if i = fst z \<and> fst z < snd z
            then (let ret' = ret @ ''::''; i' = snd z
                  in if i' \<ge> 8 then ret'
                     else appendTo6_loop ip z (Suc i') (appendHex ret' (v6u16 ip i')))
            else (let ret' = (if i > 0 then ret @ '':'' else ret)
                  in appendTo6_loop ip z (Suc i) (appendHex ret' (v6u16 ip i))))
      else ret)"
  by pat_completeness auto
termination
  by (relation "measure (\<lambda>(ip, z, i, ret). 8 - i)") auto

definition string6 :: "byte list \<Rightarrow> string" where
  "string6 ip = appendTo6_loop ip (find_zeros ip 0 (255, 255)) 0 []"

definition IP_String :: "byte list \<Rightarrow> string" where
  "IP_String ip =
     (if length ip = 0 then ''<nil>''
      else if length ip \<noteq> 4 \<and> length ip \<noteq> 16 then ''?'' @ hexString ip
      else (case To4 ip of
              Some p4 \<Rightarrow> string4 p4
            | None \<Rightarrow> string6 ip))"

definition networkNumberAndMask :: "IPNet \<Rightarrow> (byte list \<times> byte list) option" where
  "networkNumberAndMask n =
     (case (case To4 (IP n) of
              Some p4 \<Rightarrow> Some p4
            | None \<Rightarrow> if length (IP n) \<noteq> 16 then None else Some (IP n)) of
        None \<Rightarrow> None
      | Some ip \<Rightarrow>
          if length (Mask n) = 4
          then (if length ip \<noteq> 4 then None else Some (ip, Mask n))
          else if length (Mask n) = 16
          then (if length ip = 4 then Some (ip, drop 12 (Mask n)) else Some (ip, Mask n))
          else None)"

definition IPNet_String :: "IPNet \<Rightarrow> string" where
  "IPNet_String n =
     (case networkNumberAndMask n of
        None \<Rightarrow> ''<nil>''
      | Some (nn, m) \<Rightarrow>
          (case simpleMaskLength m of
             None \<Rightarrow> IP_String nn @ ''/'' @ IPMask_String m
           | Some l \<Rightarrow> IP_String nn @ ''/'' @ uitoa l))"


text \<open>\<^verbatim>\<open>netip.Addr\<close>: an IPv4 address (four bytes), or an IPv6 address (sixteen) with its zone.\<close>

datatype Addr = Addr4 "byte list" | Addr6 "byte list" string

definition Zone :: "Addr \<Rightarrow> string" where
  "Zone a = (case a of Addr4 b \<Rightarrow> [] | Addr6 b z \<Rightarrow> z)"

definition BitLen :: "Addr \<Rightarrow> nat" where
  "BitLen a = (case a of Addr4 b \<Rightarrow> 32 | Addr6 b z \<Rightarrow> 128)"

definition As16 :: "Addr \<Rightarrow> byte list" where
  "As16 a = (case a of Addr4 b \<Rightarrow> v4InV6Prefix @ b | Addr6 b z \<Rightarrow> b)"

definition is_digit :: "char \<Rightarrow> bool" where
  "is_digit c = ((of_char CHR ''0'' :: nat) \<le> of_char c \<and> (of_char c :: nat) \<le> of_char CHR ''9'')"

definition digit_val :: "char \<Rightarrow> nat" where
  "digit_val c = of_char c - of_char CHR ''0''"

text \<open>
  \<^verbatim>\<open>parseIPv4Fields\<close>: \<open>prev\<close> is the character before the current one (\<open>None\<close> at
  the first position).
\<close>

fun parseIPv4Fields_loop ::
  "string \<Rightarrow> char option \<Rightarrow> nat \<Rightarrow> nat \<Rightarrow> nat \<Rightarrow> byte list \<Rightarrow> byte list option" where
  "parseIPv4Fields_loop [] prev val pos digLen flds =
     (if pos < 3 then None else Some (flds[3 := of_nat val]))"
| "parseIPv4Fields_loop (c # cs) prev val pos digLen flds =
     (if is_digit c then
        (if digLen = 1 \<and> val = 0 then None
         else (let val' = val * 10 + digit_val c
               in if val' > 255 then None
                  else parseIPv4Fields_loop cs (Some c) val' pos (digLen + 1) flds))
      else if c = CHR ''.'' then
        (if prev = None \<or> cs = [] \<or> prev = Some CHR ''.'' then None
         else if pos = 3 then None
         else parseIPv4Fields_loop cs (Some c) 0 (pos + 1) 0 (flds[pos := of_nat val]))
      else None)"

definition parseIPv4Fields :: "string \<Rightarrow> byte list option" where
  "parseIPv4Fields s = parseIPv4Fields_loop s None 0 0 0 [0, 0, 0, 0]"

definition parseIPv4 :: "string \<Rightarrow> Addr option" where
  "parseIPv4 s = (case parseIPv4Fields s of None \<Rightarrow> None | Some flds \<Rightarrow> Some (Addr4 flds))"

definition hex_val :: "char \<Rightarrow> nat option" where
  "hex_val c =
     (if (of_char CHR ''0'' :: nat) \<le> of_char c \<and> (of_char c :: nat) \<le> of_char CHR ''9'' then Some (of_char c - of_char CHR ''0'')
      else if (of_char CHR ''a'' :: nat) \<le> of_char c \<and> (of_char c :: nat) \<le> of_char CHR ''f'' then Some (of_char c - of_char CHR ''a'' + 10)
      else if (of_char CHR ''A'' :: nat) \<le> of_char c \<and> (of_char c :: nat) \<le> of_char CHR ''F'' then Some (of_char c - of_char CHR ''A'' + 10)
      else None)"

text \<open>
  The inner loop of \<^verbatim>\<open>parseIPv6\<close> over the hex digits of one group: the offset it stops
  at and the value read, or \<open>None\<close> where the source returns an error. The accumulator
  is a \<^verbatim>\<open>uint32\<close> that holds at most five hex digits, so it never wraps.
\<close>

fun hex_group :: "string \<Rightarrow> nat \<Rightarrow> nat \<Rightarrow> (nat \<times> nat) option" where
  "hex_group [] off acc = Some (off, acc)"
| "hex_group (c # cs) off acc =
     (case hex_val c of
        None \<Rightarrow> Some (off, acc)
      | Some d \<Rightarrow>
          (let acc' = acc * 16 + d
           in if off > 3 then None
              else if acc' > 0xFFFF then None
              else hex_group cs (Suc off) acc'))"

text \<open>
  The main loop of \<^verbatim>\<open>parseIPv6\<close>. \<open>ellipsis\<close> is \<open>None\<close> for the source's \<open>-1\<close>.
  The result is the state when the loop is left: \<open>(i, ip, ellipsis, s)\<close>.
\<close>

function parseIPv6_loop ::
  "nat \<Rightarrow> byte list \<Rightarrow> nat option \<Rightarrow> string \<Rightarrow> (nat \<times> byte list \<times> nat option \<times> string) option" where
  "parseIPv6_loop i ip ellipsis s =
     (if i < 16 then
        (case hex_group s 0 0 of
           None \<Rightarrow> None
         | Some (off, acc) \<Rightarrow>
             if off = 0 then None
             else if off < length s \<and> s ! off = CHR ''.'' then
               (if ellipsis = None \<and> i \<noteq> 12 then None
                else if i + 4 > 16 then None
                else (case parseIPv4Fields s of
                        None \<Rightarrow> None
                      | Some flds \<Rightarrow>
                          Some (i + 4, take i ip @ flds @ drop (i + 4) ip, ellipsis, [])))
             else
               (let ip1 = ip[i := of_nat (acc div 256), i + 1 := of_nat acc];
                    i1 = i + 2;
                    s1 = drop off s
                in if length s1 = 0 then Some (i1, ip1, ellipsis, s1)
                   else if hd s1 \<noteq> CHR '':'' then None
                   else if length s1 = 1 then None
                   else (let s2 = tl s1
                         in if hd s2 = CHR '':'' then
                              (if ellipsis \<noteq> None then None
                               else (let s3 = tl s2
                                     in if length s3 = 0 then Some (i1, ip1, Some i1, s3)
                                        else parseIPv6_loop i1 ip1 (Some i1) s3))
                            else parseIPv6_loop i1 ip1 ellipsis s2)))
      else Some (i, ip, ellipsis, s))"
  by pat_completeness auto
termination
  by (relation "measure (\<lambda>(i, ip, ellipsis, s). 16 - i)") auto

text \<open>The loop that moves the groups after the ellipsis to the end; \<open>k\<close> is \<open>j + 1\<close>.\<close>

fun expand_ellipsis :: "byte list \<Rightarrow> nat \<Rightarrow> nat \<Rightarrow> nat \<Rightarrow> byte list" where
  "expand_ellipsis ip n ellipsis 0 = ip"
| "expand_ellipsis ip n ellipsis (Suc j) =
     (if j \<ge> ellipsis then expand_ellipsis (ip[j + n := ip ! j]) n ellipsis j else ip)"

definition clear :: "byte list \<Rightarrow> nat \<Rightarrow> nat \<Rightarrow> byte list" where
  "clear ip lo hi = take lo ip @ replicate (hi - lo) 0 @ drop hi ip"

definition parseIPv6 :: "string \<Rightarrow> Addr option" where
  "parseIPv6 in0 =
     (let s0 = takeWhile (\<lambda>c. c \<noteq> CHR ''%'') in0;
          has_zone = (CHR ''%'' \<in> set in0);
          zone = (if has_zone then tl (dropWhile (\<lambda>c. c \<noteq> CHR ''%'') in0) else [])
      in if has_zone \<and> zone = [] then None
         else (let lead = (length s0 \<ge> 2 \<and> s0 ! 0 = CHR '':'' \<and> s0 ! 1 = CHR '':'');
                   ellipsis = (if lead then Some 0 else None);
                   s = (if lead then drop 2 s0 else s0)
               in if lead \<and> length s = 0 then Some (Addr6 (replicate 16 0) zone)
                  else (case parseIPv6_loop 0 (replicate 16 0) ellipsis s of
                          None \<Rightarrow> None
                        | Some (i, ip, ellipsis, s) \<Rightarrow>
                            if length s \<noteq> 0 then None
                            else if i < 16 then
                              (case ellipsis of
                                 None \<Rightarrow> None
                               | Some e \<Rightarrow>
                                   (let n = 16 - i;
                                        ip = expand_ellipsis ip n e i;
                                        ip = clear ip e (e + n)
                                    in Some (Addr6 ip zone)))
                            else if ellipsis \<noteq> None then None
                            else Some (Addr6 ip zone))))"

fun ParseAddr_loop :: "string \<Rightarrow> string \<Rightarrow> Addr option" where
  "ParseAddr_loop [] s = None"
| "ParseAddr_loop (c # cs) s =
     (if c = CHR ''.'' then parseIPv4 s
      else if c = CHR '':'' then parseIPv6 s
      else if c = CHR ''%'' then None
      else ParseAddr_loop cs s)"

definition ParseAddr :: "string \<Rightarrow> Addr option" where
  "ParseAddr s = ParseAddr_loop s s"

definition big :: nat where
  "big = 0xFFFFFF"

fun dtoi_loop :: "string \<Rightarrow> nat \<Rightarrow> nat \<Rightarrow> nat \<times> nat \<times> bool" where
  "dtoi_loop [] n i = (if i = 0 then (0, 0, False) else (n, i, True))"
| "dtoi_loop (c # cs) n i =
     (if is_digit c
      then (let n' = n * 10 + digit_val c
            in if n' \<ge> big then (big, i, False) else dtoi_loop cs n' (Suc i))
      else (if i = 0 then (0, 0, False) else (n, i, True)))"

definition dtoi :: "string \<Rightarrow> nat \<times> nat \<times> bool" where
  "dtoi s = dtoi_loop s 0 0"

text \<open>\<^verbatim>\<open>strings.Cut(s, "/")\<close>\<close>

definition Cut_slash :: "string \<Rightarrow> (string \<times> string) option" where
  "Cut_slash s =
     (if CHR ''/'' \<in> set s
      then Some (takeWhile (\<lambda>c. c \<noteq> CHR ''/'') s, tl (dropWhile (\<lambda>c. c \<noteq> CHR ''/'') s))
      else None)"

text \<open>\<^verbatim>\<open>net.ParseCIDR\<close>: the address and the network, or \<open>None\<close> for the parse error.\<close>

definition ParseCIDR :: "string \<Rightarrow> (byte list \<times> IPNet) option" where
  "ParseCIDR s =
     (case Cut_slash s of
        None \<Rightarrow> None
      | Some (addr, msk) \<Rightarrow>
          (case ParseAddr addr of
             None \<Rightarrow> None
           | Some ipAddr \<Rightarrow>
               if Zone ipAddr \<noteq> [] then None
               else (case dtoi msk of
                       (n, i, ok) \<Rightarrow>
                         if \<not> ok \<or> i \<noteq> length msk \<or> n > BitLen ipAddr then None
                         else (let m = CIDRMask (int n) (int (BitLen ipAddr));
                                   addr16 = As16 ipAddr
                               in Some (addr16, \<lparr>IP = IP_Mask addr16 m, Mask = m\<rparr>)))))"


section \<open>Logging\<close>

definition logInfo :: "env \<Rightarrow> string \<Rightarrow> world \<Rightarrow> world" where
  "logInfo e msg w = w\<lparr>stdout := stdout w @ [(now e (length (stdout w)), INFO, msg)]\<rparr>"

definition logErr :: "env \<Rightarrow> error \<Rightarrow> world \<Rightarrow> world" where
  "logErr e err w = w\<lparr>stdout := stdout w @ [(now e (length (stdout w)), ERROR, err)]\<rparr>"

section \<open>File operations\<close>

text \<open>\<^verbatim>\<open>os.Create\<close>: creates or truncates the file and opens it.\<close>

definition os_Create :: "env \<Rightarrow> string \<Rightarrow> world \<Rightarrow> error option \<times> world" where
  "os_Create e path w =
     (case create_error e path of
        Some err \<Rightarrow> (Some err, w\<lparr>calls := calls w @ [Os_Create path]\<rparr>)
      | None \<Rightarrow>
          (None, w\<lparr>calls := calls w @ [Os_Create path],
                    files := (files w)(path \<mapsto> []),
                    open_handles := OsFile path # open_handles w\<rparr>))"

text \<open>
  \<^verbatim>\<open>fmt.Fprintf(f, ...)\<close> with the text already formatted: appends to the file, or fails
  and reports the error.
\<close>

definition Fprintf :: "env \<Rightarrow> string \<Rightarrow> string \<Rightarrow> world \<Rightarrow> error option \<times> world" where
  "Fprintf e path s w =
     (case write_error e path of
        Some err \<Rightarrow> (Some err, w)
      | None \<Rightarrow>
          (None, w\<lparr>files := (files w)(path \<mapsto> (case files w path of None \<Rightarrow> s | Some c \<Rightarrow> c @ s))\<rparr>))"

definition Close :: "handle \<Rightarrow> world \<Rightarrow> world" where
  "Close h w = w\<lparr>open_handles := removeAll h (open_handles w)\<rparr>"

section \<open>writeSetFile\<close>

text \<open>The loop over \<^verbatim>\<open>items\<close>; the result of each \<^verbatim>\<open>Fprintf\<close> is dropped, as in the source.\<close>

fun write_items :: "env \<Rightarrow> string \<Rightarrow> string list \<Rightarrow> world \<Rightarrow> world" where
  "write_items e path [] w = w"
| "write_items e path (n # items) w =
     write_items e path items (snd (Fprintf e path (''        '' @ n @ '',\<newline>'') w))"

definition writeSetFile ::
  "env \<Rightarrow> string \<Rightarrow> string \<Rightarrow> string \<Rightarrow> string list \<Rightarrow> world \<Rightarrow> unit step" where
  "writeSetFile e path setName addrType items w =
     (case os_Create e path w of
        (Some err, w0) \<Rightarrow> Exit 1 (logErr e err w0)
      | (None, w0) \<Rightarrow>
          (let w1 = snd (Fprintf e path (''set '' @ setName @ '' {\<newline>'') w0);
               w2 = snd (Fprintf e path (''    type '' @ addrType @ ''\<newline>'') w1);
               w3 = snd (Fprintf e path ''    flags interval\<newline>'' w2);
               w4 = snd (Fprintf e path ''    elements = {\<newline>'' w3);
               w5 = write_items e path items w4;
               w6 = snd (Fprintf e path ''    }\<newline>}\<newline>'' w5)
           in Return () (Close (OsFile path) w6)))"

section \<open>The calls main makes to the outside\<close>

text \<open>\<^verbatim>\<open>http.Get\<close>: a response comes with an open body, numbered by the calls made so far.\<close>

definition http_Get :: "env \<Rightarrow> string \<Rightarrow> world \<Rightarrow> (error + Response) \<times> world" where
  "http_Get e url w =
     (case http_response e url of
        Inl err \<Rightarrow> (Inl err, w\<lparr>calls := calls w @ [Http_Get url]\<rparr>)
      | Inr resp \<Rightarrow>
          (Inr resp, w\<lparr>calls := calls w @ [Http_Get url],
                        open_handles := HttpBody (length (calls w)) # open_handles w\<rparr>))"

text \<open>
  \<^verbatim>\<open>io.Copy(dst, src)\<close>: writes what the source delivers; the first error of the write
  or of the read is returned.
\<close>

definition io_Copy :: "env \<Rightarrow> string \<Rightarrow> ReadCloser \<Rightarrow> world \<Rightarrow> error option \<times> world" where
  "io_Copy e dst src w =
     (let w0 = w\<lparr>calls := calls w @ [Io_Copy dst]\<rparr>
      in if content src = [] then (read_error src, w0)
         else (case Fprintf e dst (content src) w0 of
                 (Some err, w1) \<Rightarrow> (Some err, w1)
               | (None, w1) \<Rightarrow> (read_error src, w1)))"

text \<open>\<^verbatim>\<open>os.Rename\<close>: on success the file is at the new path only.\<close>

definition os_Rename :: "env \<Rightarrow> string \<Rightarrow> string \<Rightarrow> world \<Rightarrow> error option \<times> world" where
  "os_Rename e oldpath newpath w =
     (let w0 = w\<lparr>calls := calls w @ [Os_Rename oldpath newpath]\<rparr>
      in case rename_error e oldpath newpath of
           Some err \<Rightarrow> (Some err, w0)
         | None \<Rightarrow> (None, w0\<lparr>files := ((files w)(newpath := files w oldpath))(oldpath := None)\<rparr>))"

text \<open>
  \<^verbatim>\<open>maxminddb.Open\<close> followed by \<^verbatim>\<open>db.Networks(maxminddb.SkipAliasedNetworks)\<close>: the
  reader of the file's content gives the sequence of entries the iteration will yield.
\<close>

definition maxminddb_Open :: "env \<Rightarrow> string \<Rightarrow> world \<Rightarrow> (error + db_entry list) \<times> world" where
  "maxminddb_Open e path w =
     (let w0 = w\<lparr>calls := calls w @ [Maxminddb_Open path]\<rparr>
      in case files w path of
           None \<Rightarrow> (Inl (''open '' @ path @ '': no such file or directory''), w0)
         | Some c \<Rightarrow>
             (case mmdb_networks e c of
                Inl err \<Rightarrow> (Inl err, w0)
              | Inr networks \<Rightarrow>
                  (Inr networks, w0\<lparr>open_handles := MmdbReader path # open_handles w0\<rparr>)))"

text \<open>\<^verbatim>\<open>exec.Command(...).CombinedOutput()\<close>\<close>

definition CombinedOutput :: "env \<Rightarrow> string list \<Rightarrow> world \<Rightarrow> (string \<times> error option) \<times> world" where
  "CombinedOutput e cmd w = (command_result e cmd, w\<lparr>calls := calls w @ [Exec_Command cmd]\<rparr>)"

text \<open>
  \<^verbatim>\<open>defer h.Close()\<close> in \<^verbatim>\<open>main\<close>, and what happens to the deferred calls when
  \<^verbatim>\<open>main\<close> returns: they run, the latest first.
\<close>

definition defer_Close :: "handle \<Rightarrow> world \<Rightarrow> world" where
  "defer_Close h w = w\<lparr>deferred := h # deferred w\<rparr>"

definition run_deferred :: "world \<Rightarrow> world" where
  "run_deferred w = fold Close (deferred w) (w\<lparr>deferred := []\<rparr>)"

section \<open>filepath.Ext\<close>

text \<open>
  The scan from the end of the path: \<open>r\<close> is what is left of the path, reversed, and
  \<open>suffix\<close> what has been passed.
\<close>

fun Ext_loop :: "string \<Rightarrow> string \<Rightarrow> string" where
  "Ext_loop [] suffix = []"
| "Ext_loop (c # r) suffix =
     (if c = CHR ''/'' then []
      else if c = CHR ''.'' then c # suffix
      else Ext_loop r (c # suffix))"

definition filepath_Ext :: "string \<Rightarrow> string" where
  "filepath_Ext path = Ext_loop (rev path) []"

section \<open>main\<close>

text \<open>
  \<^verbatim>\<open>main\<close> is split at its numbered comments. Each part takes the world it starts in
  and gives the exit status of the process and the world at its end.
\<close>

text \<open>7. Reload nftables (lines 165 to 174).\<close>

definition main_reload :: "env \<Rightarrow> world \<Rightarrow> nat \<times> world" where
  "main_reload e w =
     (let w0 = logInfo e ''Reloading nftables...'' w
      in case CombinedOutput e [''systemctl'', ''restart'', ''nftables''] w0 of
           ((out, Some err), w1) \<Rightarrow> (1, logErr e (''systemctl output: '' @ out) w1)
         | ((out, None), w1) \<Rightarrow> (0, run_deferred (logInfo e ''Done.'' w1)))"

text \<open>6. Write nftables set files (lines 157 to 163).\<close>

definition main_write :: "env \<Rightarrow> string list \<Rightarrow> string list \<Rightarrow> world \<Rightarrow> nat \<times> world" where
  "main_write e cnIPv4 cnIPv6 w =
     (case writeSetFile e outCN4 ''cn4'' ''ipv4_addr'' cnIPv4 w of
        Exit code w0 \<Rightarrow> (code, w0)
      | Return u w0 \<Rightarrow>
          (case writeSetFile e outCN6 ''cn6'' ''ipv6_addr'' cnIPv6 w0 of
             Exit code w1 \<Rightarrow> (code, w1)
           | Return u w1 \<Rightarrow>
               (let w2 = logInfo e ''Generated:'' w1;
                    w3 = logInfo e (''- '' @ outCN4 @ '' ('' @ uitoa (length cnIPv4) @ '' IPv4 ranges)'') w2;
                    w4 = logInfo e (''- '' @ outCN6 @ '' ('' @ uitoa (length cnIPv6) @ '' IPv6 ranges)'') w3
                in main_reload e w4)))"

text \<open>The loop over the networks of the database (lines 131 to 155).\<close>

fun extract_loop :: "db_entry list \<Rightarrow> string list \<Rightarrow> string list \<Rightarrow> string list \<times> string list" where
  "extract_loop [] cnIPv4 cnIPv6 = (cnIPv4, cnIPv6)"
| "extract_loop (entry # networks) cnIPv4 cnIPv6 =
     (case entry of
        Inl err \<Rightarrow> extract_loop networks cnIPv4 cnIPv6
      | Inr (network, rec) \<Rightarrow>
          if ISOCode (Country rec) = ''CN'' then
            (case ParseCIDR (IPNet_String network) of
               None \<Rightarrow> extract_loop networks cnIPv4 cnIPv6
             | Some (ip, ipNet) \<Rightarrow>
                 if To4 (IP ipNet) \<noteq> None
                 then extract_loop networks (cnIPv4 @ [IPNet_String ipNet]) cnIPv6
                 else extract_loop networks cnIPv4 (cnIPv6 @ [IPNet_String ipNet]))
          else extract_loop networks cnIPv4 cnIPv6)"

text \<open>5. Parse MMDB and extract CN networks (lines 121 to 155).\<close>

definition main_parse :: "env \<Rightarrow> world \<Rightarrow> nat \<times> world" where
  "main_parse e w =
     (let w0 = logInfo e ''Parsing MMDB and generating nftables sets...'' w
      in case maxminddb_Open e saveMMDB w0 of
           (Inl err, w1) \<Rightarrow> (1, logErr e err w1)
         | (Inr networks, w1) \<Rightarrow>
             (let w2 = defer_Close (MmdbReader saveMMDB) w1
              in case extract_loop networks [] [] of
                   (cnIPv4, cnIPv6) \<Rightarrow> main_write e cnIPv4 cnIPv6 w2))"

text \<open>4. Replace system MMDB (lines 114 to 119).\<close>

definition main_replace :: "env \<Rightarrow> world \<Rightarrow> nat \<times> world" where
  "main_replace e w =
     (let w0 = logInfo e ''Replacing old MMDB...'' w
      in case os_Rename e tmpMMDB saveMMDB w0 of
           (Some err, w1) \<Rightarrow> (1, logErr e err w1)
         | (None, w1) \<Rightarrow> main_parse e w1)"

text \<open>3. Download mmdb (lines 84 to 112).\<close>

definition main_download :: "env \<Rightarrow> string \<Rightarrow> world \<Rightarrow> nat \<times> world" where
  "main_download e downloadURL w =
     (let w0 = logInfo e ''Downloading MMDB...'' w
      in case os_Create e tmpMMDB w0 of
           (Some err, w1) \<Rightarrow> (1, logErr e err w1)
         | (None, w1) \<Rightarrow>
             (let w2 = defer_Close (OsFile tmpMMDB) w1
              in case http_Get e downloadURL w2 of
                   (Inl err, w3) \<Rightarrow> (1, logErr e err w3)
                 | (Inr resp2, w3) \<Rightarrow>
                     (let w4 = defer_Close (HttpBody (length (calls w2))) w3
                      in if StatusCode resp2 \<noteq> 200
                         then (1, logErr e (''download failed: '' @
                                 (if StatusCode resp2 < 0 then ''-'' else []) @
                                 uitoa (nat \<bar>StatusCode resp2\<bar>)) w4)
                         else (case io_Copy e tmpMMDB (Body resp2) w4 of
                                 (Some err, w5) \<Rightarrow> (1, logErr e err w5)
                               | (None, w5) \<Rightarrow>
                                   main_replace e (logInfo e ''Download complete.'' w5)))))"

text \<open>The loop of step 2 over the assets of the release.\<close>

fun find_downloadURL :: "GitHubAsset list \<Rightarrow> string" where
  "find_downloadURL [] = []"
| "find_downloadURL (a # assets) =
     (if filepath_Ext (Name a) = ''.mmdb'' then BrowserDownloadURL a
      else find_downloadURL assets)"

text \<open>2. Find mmdb download URL (lines 69 to 82).\<close>

definition main_find :: "env \<Rightarrow> GitHubRelease \<Rightarrow> world \<Rightarrow> nat \<times> world" where
  "main_find e release w =
     (let downloadURL = find_downloadURL (Assets release)
      in if downloadURL = []
         then (1, logErr e ''no mmdb file found in release'' w)
         else main_download e downloadURL (logInfo e (''MMDB download URL: '' @ downloadURL) w))"

text \<open>1. Fetch GitHub release info (lines 50 to 67), and with it all of \<^verbatim>\<open>main\<close>.\<close>

definition main :: "env \<Rightarrow> world \<Rightarrow> nat \<times> world" where
  "main e w =
     (let w0 = logInfo e ''Fetching latest GitHub release metadata...'' w
      in case http_Get e apiURL w0 of
           (Inl err, w1) \<Rightarrow> (1, logErr e err w1)
         | (Inr resp, w1) \<Rightarrow>
             (let w2 = defer_Close (HttpBody (length (calls w0))) w1
              in case json_release e (Body resp) of
                   Inl err \<Rightarrow> (1, logErr e err w2)
                 | Inr release \<Rightarrow>
                     main_find e release (logInfo e (''Latest tag: '' @ TagName release) w2)))"

section \<open>The rule-set text of the specification, and an example run\<close>

text \<open>
  The grammar of section 4.3 of the specification, written down from its words to
  compare it with what \<^verbatim>\<open>writeSetFile\<close> writes.
\<close>

definition element_lines :: "string list \<Rightarrow> string" where
  "element_lines elements = concat (map (\<lambda>n. ''        '' @ n @ '',\<newline>'') elements)"

definition serialize :: "string \<Rightarrow> string \<Rightarrow> string list \<Rightarrow> string" where
  "serialize setName addrType elements =
     ''set '' @ setName @ '' {\<newline>'' @
     ''    type '' @ addrType @ ''\<newline>'' @
     ''    flags interval\<newline>'' @
     ''    elements = {\<newline>'' @
     element_lines elements @
     ''    }\<newline>'' @
     ''}\<newline>''"

definition example_env :: env where
  "example_env =
     \<lparr>now = (\<lambda>n. ''2026-01-01T00:00:00Z''),
      http_response = (\<lambda>url.
        if url = apiURL
        then Inr \<lparr>StatusCode = 200, Body = \<lparr>content = ''{}'', read_error = None\<rparr>\<rparr>
        else Inr \<lparr>StatusCode = 200, Body = \<lparr>content = ''mmdb'', read_error = None\<rparr>\<rparr>),
      json_release = (\<lambda>body.
        Inr \<lparr>TagName = ''2026.01.01'',
             Assets = [\<lparr>Name = ''README.md'', BrowserDownloadURL = ''https://example.org/README.md''\<rparr>,
                       \<lparr>Name = ''GeoLite2-Country.mmdb'',
                        BrowserDownloadURL = ''https://example.org/GeoLite2-Country.mmdb''\<rparr>]\<rparr>),
      create_error = (\<lambda>path. None),
      write_error = (\<lambda>path. None),
      rename_error = (\<lambda>oldpath newpath. None),
      mmdb_networks = (\<lambda>c.
        Inr [Inr (\<lparr>IP = [10, 0, 0, 0], Mask = [255, 0, 0, 0]\<rparr>, \<lparr>Country = \<lparr>ISOCode = ''CN''\<rparr>\<rparr>),
             Inr (\<lparr>IP = [192, 168, 0, 0], Mask = [255, 255, 0, 0]\<rparr>, \<lparr>Country = \<lparr>ISOCode = ''US''\<rparr>\<rparr>),
             Inr (\<lparr>IP = [0x20, 0x01, 0x0d, 0xb8, 0, 0, 0, 0, 0, 0, 0, 0, 0, 0, 0, 0],
                   Mask = [255, 255, 255, 255, 0, 0, 0, 0, 0, 0, 0, 0, 0, 0, 0, 0]\<rparr>,
                  \<lparr>Country = \<lparr>ISOCode = ''CN''\<rparr>\<rparr>)]),
      command_result = (\<lambda>cmd. ([], None))\<rparr>"

definition fresh_world :: world where
  "fresh_world = \<lparr>stdout = [], files = Map.empty, open_handles = [], deferred = [], calls = []\<rparr>"

section \<open>What writeSetFile writes\<close>

lemma write_items_ok:
  assumes "write_error e path = None" and "files w path = Some c"
  shows "write_items e path items w = w\<lparr>files := (files w)(path \<mapsto> c @ element_lines items)\<rparr>"
  using assms(2)
proof (induction items arbitrary: w c)
  case Nil
  then show ?case by (simp add: element_lines_def fun_upd_idem)
next
  case (Cons n items)
  define line where "line = ''        '' @ n @ '',\<newline>''"
  define w1 where "w1 = w\<lparr>files := (files w)(path \<mapsto> c @ line)\<rparr>"
  have step: "snd (Fprintf e path line w) = w1"
    using assms(1) Cons.prems by (simp add: Fprintf_def w1_def)
  have "files w1 path = Some (c @ line)"
    by (simp add: w1_def)
  from Cons.IH [OF this]
  have "write_items e path items w1 = w1\<lparr>files := (files w1)(path \<mapsto> (c @ line) @ element_lines items)\<rparr>" .
  also have "\<dots> = w\<lparr>files := (files w)(path \<mapsto> c @ element_lines (n # items))\<rparr>"
    by (simp add: w1_def element_lines_def line_def)
  finally have fin: "write_items e path items w1 =
      w\<lparr>files := (files w)(path \<mapsto> c @ element_lines (n # items))\<rparr>" .
  have "write_items e path (n # items) w = write_items e path items w1"
    using step by (simp only: write_items.simps line_def)
  with fin show ?case
    by (simp only:)
qed

lemma write_items_failed:
  "write_error e path = Some err \<Longrightarrow> write_items e path items w = w"
  by (induction items arbitrary: w) (simp_all add: Fprintf_def)

lemma writeSetFile_ok:
  assumes "create_error e path = None" and "write_error e path = None"
  shows "writeSetFile e path setName addrType items w =
           Return () (w\<lparr>calls := calls w @ [Os_Create path],
                        files := (files w)(path \<mapsto> serialize setName addrType items),
                        open_handles := removeAll (OsFile path) (open_handles w)\<rparr>)"
proof -
  define w0 where "w0 = snd (os_Create e path w)"
  define w4 where "w4 = w0\<lparr>files := (files w0)(path \<mapsto>
      ''set '' @ setName @ '' {\<newline>'' @ ''    type '' @ addrType @ ''\<newline>'' @
      ''    flags interval\<newline>'' @ ''    elements = {\<newline>'')\<rparr>"
  have f4: "files w4 path = Some (''set '' @ setName @ '' {\<newline>'' @ ''    type '' @ addrType @ ''\<newline>'' @
      ''    flags interval\<newline>'' @ ''    elements = {\<newline>'')"
    by (simp add: w4_def)
  note wi = write_items_ok [OF assms(2) f4, of items]
  show ?thesis
    using assms wi
    by (simp add: writeSetFile_def os_Create_def Fprintf_def Close_def serialize_def w4_def w0_def)
qed

text \<open>
  Claim C4. For every set name \<open>X\<close> and address-family tag \<open>Y\<close>, writing an empty list of
  elements leaves exactly the text
  \<^verbatim>\<open>set X {\n    type Y\n    flags interval\n    elements = {\n    }\n}\n\<close> in the file:
  an empty set in braces, with no special case. (The file can be created and written.)
\<close>

theorem writeSetFile_empty_elements:
  assumes "create_error e path = None" and "write_error e path = None"
  shows "case writeSetFile e path X Y [] w of
           Exit code w' \<Rightarrow> False
         | Return u w' \<Rightarrow>
             files w' path =
               Some (''set '' @ X @ '' {\<newline>    type '' @ Y @
                     ''\<newline>    flags interval\<newline>    elements = {\<newline>    }\<newline>}\<newline>'')"
  using writeSetFile_ok [OF assms, of X Y "[]" w]
  by (simp add: serialize_def element_lines_def)

text \<open>The theorem at the IPv4 rule-set file of the example run.\<close>

theorem writeSetFile_empty_elements_witness:
  "create_error example_env outCN4 = None \<and> write_error example_env outCN4 = None \<and>
   (case writeSetFile example_env outCN4 ''cn4'' ''ipv4_addr'' [] fresh_world of
      Exit code w' \<Rightarrow> False
    | Return u w' \<Rightarrow>
        files w' outCN4 =
          Some ''set cn4 {\<newline>    type ipv4_addr\<newline>    flags interval\<newline>    elements = {\<newline>    }\<newline>}\<newline>'')"
proof -
  have c: "create_error example_env outCN4 = None" and w: "write_error example_env outCN4 = None"
    by (simp_all add: example_env_def)
  show ?thesis
    using c w writeSetFile_empty_elements [OF c w, of "''cn4''" "''ipv4_addr''" fresh_world]
    by (simp split: step.splits)
qed

text \<open>
  Claim C5. The text written for a list of elements has one line per element, in the
  order of the list, each indented by eight spaces and ended by a comma, between the
  header lines \<^verbatim>\<open>set <setName> {\<close>, \<^verbatim>\<open>    type <addrType>\<close>, \<^verbatim>\<open>    flags interval\<close>,
  \<^verbatim>\<open>    elements = {\<close> and the closing lines \<^verbatim>\<open>    }\<close> and \<^verbatim>\<open>}\<close>. In particular the
  elements \<^verbatim>\<open>1.2.3.0/24\<close> and \<^verbatim>\<open>5.6.7.0/24\<close> with name \<^verbatim>\<open>cn4\<close> and type \<^verbatim>\<open>ipv4_addr\<close>
  give both lines in that order.
\<close>

theorem writeSetFile_element_lines:
  assumes "create_error e path = None" and "write_error e path = None"
  shows "(case writeSetFile e path setName addrType items w of
            Exit code w' \<Rightarrow> False
          | Return u w' \<Rightarrow>
              files w' path =
                Some (''set '' @ setName @ '' {\<newline>'' @
                      ''    type '' @ addrType @ ''\<newline>'' @
                      ''    flags interval\<newline>'' @
                      ''    elements = {\<newline>'' @
                      concat (map (\<lambda>n. ''        '' @ n @ '',\<newline>'') items) @
                      ''    }\<newline>'' @
                      ''}\<newline>''))
         \<and> (case writeSetFile e path ''cn4'' ''ipv4_addr'' [''1.2.3.0/24'', ''5.6.7.0/24''] w of
               Exit code w' \<Rightarrow> False
             | Return u w' \<Rightarrow>
                 files w' path =
                   Some ''set cn4 {\<newline>    type ipv4_addr\<newline>    flags interval\<newline>    elements = {\<newline>        1.2.3.0/24,\<newline>        5.6.7.0/24,\<newline>    }\<newline>}\<newline>'')"
  using writeSetFile_ok [OF assms, of setName addrType items w]
    writeSetFile_ok [OF assms, of "''cn4''" "''ipv4_addr''" "[''1.2.3.0/24'', ''5.6.7.0/24'']" w]
  by (simp add: serialize_def element_lines_def)

text \<open>The theorem at the IPv6 rule-set file of the example run, with a repeated element.\<close>

theorem writeSetFile_element_lines_witness:
  "create_error example_env outCN6 = None \<and> write_error example_env outCN6 = None \<and>
   (case writeSetFile example_env outCN6 ''cn6'' ''ipv6_addr'' [''2001:db8::/32'', ''2400::/12'', ''2001:db8::/32''] fresh_world of
      Exit code w' \<Rightarrow> False
    | Return u w' \<Rightarrow>
        files w' outCN6 =
          Some ''set cn6 {\<newline>    type ipv6_addr\<newline>    flags interval\<newline>    elements = {\<newline>        2001:db8::/32,\<newline>        2400::/12,\<newline>        2001:db8::/32,\<newline>    }\<newline>}\<newline>'')"
proof -
  have c: "create_error example_env outCN6 = None" and w: "write_error example_env outCN6 = None"
    by (simp_all add: example_env_def)
  show ?thesis
    using c w writeSetFile_element_lines [OF c w, of "''cn6''" "''ipv6_addr''"
        "[''2001:db8::/32'', ''2400::/12'', ''2001:db8::/32'']" fresh_world]
    by (simp split: step.splits)
qed

end
